theory Spec2Isabelle
  imports
    Complex_Main
    "HOL-Library.Char_ord"
    "HOL-Library.List_Lexorder"
    "HOL-Library.Product_Lexorder"
    "HOL-Library.Multiset"
    "HOL-Library.Log_Nat"
begin

section \<open>The used-vehicle dashboard (app.py)\<close>

text \<open>
  The program loads one table of vehicle listings into the module global \<open>df\<close> and
  registers three Dash callbacks that read it: \<open>update_mileage_chart\<close>,
  \<open>update_price_graph\<close> and \<open>update_table\<close>. No callback assigns to a global, so
  each is embedded as a function of the table and of its own arguments.

  Assumptions of the embedding, all about the libraries the program calls:
  \<^item> every row has a value in each of the six columns the code reads, so a row is a
    record with typed fields (no missing cells);
  \<^item> a number of the table (an int64 or a float64 cell) is the rational it denotes;
    the mean of a group is computed as pandas computes it, in binary64: every
    operation rounds to the nearest number with a significand of 53 bits, ties to
    even. The exponent range of binary64 is not modelled (no overflow to infinity,
    no subnormal numbers): the numbers of the table are of moderate magnitude;
  \<^item> a model year is an int64, as numpy holds it;
  \<^item> a string is a list of bytes, compared lexicographically byte by byte, which is
    Python's order on \<open>str\<close> for text in UTF-8;
  \<^item> of a plotly figure, the traces (name, colour, facet column, points) and the
    layout attributes that the code sets are kept; the geometry of the drawing is
    not modelled.
\<close>

subsection \<open>Data model\<close>

record vehicle =
  brand :: string
  model :: string
  model_year :: int
  mileage :: rat
  price :: rat
  transmission :: string

text \<open>A pandas DataFrame of listings: the ordered column names and the ordered rows.\<close>

record dataframe =
  columns :: "string list"
  rows :: "vehicle list"

datatype py_error = IndexError

subsection \<open>The pandas operations the program uses\<close>

text \<open>\<open>Series.isin(values)\<close>: membership of a cell in the given values.\<close>

definition isin :: "string \<Rightarrow> string list \<Rightarrow> bool" where
  "isin b values = (b \<in> set values)"

text \<open>\<open>df[mask]\<close>: the rows where the mask holds, in order, with the same columns.\<close>

definition df_where :: "(vehicle \<Rightarrow> bool) \<Rightarrow> dataframe \<Rightarrow> dataframe" where
  "df_where keep d = d\<lparr>rows := filter keep (rows d)\<rparr>"

text \<open>\<open>DataFrame.empty\<close>; the columns are never empty, the code reads six of them.\<close>

definition empty_df :: "dataframe \<Rightarrow> bool" where
  "empty_df d = (rows d = [])"

text \<open>\<open>Series.unique()\<close>: the distinct values in order of first appearance.\<close>

fun unique_acc :: "'a list \<Rightarrow> 'a list \<Rightarrow> 'a list" where
  "unique_acc seen [] = rev seen"
| "unique_acc seen (x # xs) =
     (if x \<in> set seen then unique_acc seen xs else unique_acc (x # seen) xs)"

definition unique :: "'a list \<Rightarrow> 'a list" where
  "unique xs = unique_acc [] xs"

text \<open>
  Binary64 arithmetic. \<open>round_half_even\<close> rounds to the nearest integer, a tie to
  the even one; \<open>binade x\<close> is the exponent e with \<open>2^e \<le> |x| < 2^(e+1)\<close>;
  \<open>float64 x\<close> is x rounded to 53 significant bits, which is what a cast to
  \<open>float64\<close> and every binary64 operation return.
\<close>

definition round_half_even :: "rat \<Rightarrow> int" where
  "round_half_even y =
     (let n = \<lfloor>y\<rfloor>; f = y - of_int n in
      if f < 1 / 2 then n else if 1 / 2 < f then n + 1 else if even n then n else n + 1)"

definition binade :: "rat \<Rightarrow> int" where
  "binade x =
     (let p = fst (quotient_of \<bar>x\<bar>); q = snd (quotient_of \<bar>x\<bar>); e = bitlen p - bitlen q
      in if 2 powi e \<le> \<bar>x\<bar> then e else e - 1)"

definition float64 :: "rat \<Rightarrow> rat" where
  "float64 x =
     (if x = 0 then 0
      else of_int (round_half_even (x / 2 powi (binade x - 52))) * 2 powi (binade x - 52))"

definition fadd :: "rat \<Rightarrow> rat \<Rightarrow> rat" where
  "fadd a b = float64 (a + b)"

definition fsub :: "rat \<Rightarrow> rat \<Rightarrow> rat" where
  "fsub a b = float64 (a - b)"

definition fdiv :: "rat \<Rightarrow> rat \<Rightarrow> rat" where
  "fdiv a b = float64 (a / b)"

text \<open>
  The mean of one group, as the \<open>group_mean\<close> kernel behind
  \<open>groupby(...).mean()\<close> computes it: the values are cast to float64 and added in
  row order by the compensated loop
  \<^verbatim>\<open>y = val - compensation; t = sumx + y; compensation = t - sumx - y; sumx = t\<close>
  and the sum is divided by the count, itself a float64.
\<close>

definition kahan_step :: "rat \<times> rat \<Rightarrow> rat \<Rightarrow> rat \<times> rat" where
  "kahan_step acc val =
     (let sumx = fst acc; compensation = snd acc;
          y = fsub val compensation;
          t = fadd sumx y
      in (t, fsub (fsub t sumx) y))"

definition mean :: "rat list \<Rightarrow> rat" where
  "mean vals =
     (let values = map float64 vals;
          sumx = fst (foldl kahan_step (0, 0) values);
          count = float64 (of_nat (length vals))
      in fdiv sumx count)"

text \<open>
  \<open>groupby(['brand', 'transmission'])['mileage'].mean().reset_index()\<close>: one row per
  distinct key, the keys sorted (\<open>sort=True\<close> is the default of \<open>groupby\<close>), with the
  mean mileage of the rows that carry the key.
\<close>

definition group_key :: "vehicle \<Rightarrow> string \<times> string" where
  "group_key r = (brand r, transmission r)"

definition groupby_mean :: "vehicle list \<Rightarrow> (string \<times> string \<times> rat) list" where
  "groupby_mean rs =
     map (\<lambda>k. (fst k, snd k, mean (map mileage (filter (\<lambda>r. group_key r = k) rs))))
       (sort (unique (map group_key rs)))"

subsection \<open>The table callback\<close>

record data_table =
  dt_id :: string
  dt_columns :: "(string \<times> string) list"
  dt_data :: "vehicle list"
  dt_style_table :: "(string \<times> string) list"
  dt_style_cell :: "(string \<times> string) list"
  dt_page_size :: nat

datatype component =
    H6 string "(string \<times> string) list"
  | DataTable data_table

text \<open>
  \<open>update_table(selected_brand)\<close>. The columns of the grid are
  \<open>[{"name": i, "id": i} for i in filtered_df.columns]\<close>, kept as (name, id) pairs;
  \<open>to_dict('records')\<close> yields the rows in order.
\<close>

definition update_table :: "dataframe \<Rightarrow> string \<Rightarrow> component list" where
  "update_table d selected_brand =
     (let filtered_df = df_where (\<lambda>r. brand r = selected_brand) d in
      if empty_df filtered_df then
        [H6 (''No data available for '' @ selected_brand)
            [(''text-align'', ''center''), (''font-weight'', ''400''), (''font-size'', ''16px'')]]
      else
        [H6 (''Data Table for '' @ selected_brand @ '' vehicles'') [(''text-align'', ''center'')],
         DataTable \<lparr>dt_id = ''cars-table'',
                    dt_columns = map (\<lambda>i. (i, i)) (columns filtered_df),
                    dt_data = rows filtered_df,
                    dt_style_table = [(''height'', ''300px'')],
                    dt_style_cell = [(''textAlign'', ''left'')],
                    dt_page_size = 9\<rparr>])"

subsection \<open>Figures\<close>

text \<open>
  A plotly figure: its traces and the layout attributes the program sets. The type
  of a point depends on the chart: (brand, mean mileage) for a bar, (model year,
  price, model) for a scatter point, the model being the hover data.
\<close>

record 'p trace =
  trace_name :: string
  marker_color :: string
  facet_col :: nat
  points :: "'p list"

record 'p figure =
  traces :: "'p trace list"
  title_text :: "string option"
  xaxis_title :: "string option"
  yaxis_title :: "string option"
  showlegend :: "bool option"
  paper_bgcolor :: "string option"
  plot_bgcolor :: "string option"
  tickvals :: "int list option"
  ticktext :: "string list option"

text \<open>\<open>go.Figure()\<close>: no trace, nothing set in the layout.\<close>

definition go_Figure :: "'p figure" where
  "go_Figure = \<lparr>traces = [], title_text = None, xaxis_title = None, yaxis_title = None,
                 showlegend = None, paper_bgcolor = None, plot_bgcolor = None,
                 tickvals = None, ticktext = None\<rparr>"

text \<open>The module's palette.\<close>

definition colors :: "string list" where
  "colors = [''#EF553B'', ''#377eb8'', ''#999999'', ''#54A24B'', ''#F58518'', ''#EECA3B'']"

text \<open>
  plotly express with \<open>color=c\<close> and \<open>color_discrete_sequence=palette\<close>: one trace per
  distinct value of column \<open>c\<close>, in order of first appearance in the frame it is
  given; the i-th value (from 0) takes \<open>palette[i % len(palette)]\<close>. With
  \<open>facet_col=c\<close> as well, the i-th value is drawn in subplot column i + 1; without
  faceting every trace is in column 1.
\<close>

definition px_traces ::
    "string list \<Rightarrow> bool \<Rightarrow> ('r \<Rightarrow> string) \<Rightarrow> ('r \<Rightarrow> 'p) \<Rightarrow> 'r list \<Rightarrow> 'p trace list" where
  "px_traces palette faceted color_of point_of rs =
     map (\<lambda>(i, c). \<lparr>trace_name = c,
                     marker_color = palette ! (i mod length palette),
                     facet_col = (if faceted then i + 1 else 1),
                     points = map point_of (filter (\<lambda>r. color_of r = c) rs)\<rparr>)
       (enumerate 0 (unique (map color_of rs)))"

text \<open>Python's \<open>str\<close> of an integer.\<close>

function str_nat :: "nat \<Rightarrow> string" where
  "str_nat n =
     (if n < 10 then [char_of (48 + n)]
      else str_nat (n div 10) @ [char_of (48 + n mod 10)])"
  by pat_completeness auto
termination
  by (relation "measure id") auto

definition str_int :: "int \<Rightarrow> string" where
  "str_int i = (if i < 0 then CHR ''-'' # str_nat (nat (- i)) else str_nat (nat i))"

subsection \<open>The bar chart callback\<close>

text \<open>
  \<open>update_mileage_chart(selected_brands)\<close>. \<open>px.bar\<close> reads x from \<open>brand\<close>, y from
  \<open>mileage\<close> and both colour and facet column from \<open>transmission\<close> of the grouped
  frame; \<open>update_layout\<close> then sets the titles and the background.
\<close>

definition update_mileage_chart :: "dataframe \<Rightarrow> string list \<Rightarrow> (string \<times> rat) figure" where
  "update_mileage_chart d selected_brands =
     (let filtered_df = df_where (\<lambda>r. isin (brand r) selected_brands) d in
      if empty_df filtered_df then
        go_Figure\<lparr>title_text := Some ''No data available for selected brands''\<rparr>
      else
        (let avg_mileage = groupby_mean (rows filtered_df);
             fig = go_Figure\<lparr>
               traces := px_traces colors True (\<lambda>(b, t, m). t) (\<lambda>(b, t, m). (b, m)) avg_mileage,
               title_text := Some ''Average Mileage by Vehicle Brand and Transmission Type'',
               xaxis_title := Some ''Brand'',
               yaxis_title := Some ''Average Mileage (mi)''\<rparr>
         in fig\<lparr>xaxis_title := Some ''Brand'',
                 yaxis_title := Some ''Average Mileage'',
                 showlegend := Some True,
                 paper_bgcolor := Some ''lightgrey'',
                 plot_bgcolor := Some ''lightgrey'',
                 title_text := Some ''Average Mileage by Vehicle Brand and Transmission Type''\<rparr>))"

subsection \<open>The scatterplot callback\<close>

text \<open>
  \<open>update_price_graph(selected_brands, selected_years)\<close>. The slider's value is a
  list; \<open>selected_years[0]\<close> and \<open>selected_years[1]\<close> raise IndexError on a list
  with fewer than two elements. \<open>range(a, b + 1)\<close> is the list \<open>[a..b]\<close>.
\<close>

definition update_price_graph ::
    "dataframe \<Rightarrow> string list \<Rightarrow> int list \<Rightarrow> py_error + (int \<times> rat \<times> string) figure" where
  "update_price_graph d selected_brands selected_years =
     (if length selected_years < 2 then Inl IndexError
      else
        (let lo = selected_years ! 0;
             hi = selected_years ! 1;
             filtered_df = df_where (\<lambda>r. isin (brand r) selected_brands \<and>
                                         model_year r \<ge> lo \<and> model_year r \<le> hi) d in
         if empty_df filtered_df then
           Inr (go_Figure\<lparr>title_text := Some ''No data available for selected criteria''\<rparr>)
         else
           (let fig = go_Figure\<lparr>
                  traces := px_traces colors False brand
                              (\<lambda>r. (model_year r, price r, model r)) (rows filtered_df),
                  xaxis_title := Some ''Model Year'',
                  yaxis_title := Some ''Price ($)''\<rparr>;
                fig = fig\<lparr>tickvals := Some [lo..hi],
                          ticktext := Some (map str_int [lo..hi])\<rparr>
            in Inr (fig\<lparr>paper_bgcolor := Some ''lightgrey'',
                         plot_bgcolor := Some ''lightgrey'',
                         title_text := Some ''Price Trends Over Selected Years''\<rparr>))))"

subsection \<open>Module initialisation and the layout\<close>














subsection \<open>Reading a result\<close>

text \<open>
  The (brand, transmission, mean mileage) triples a bar chart shows: a bar of the
  trace named t at x = b with height m is the triple (b, t, m).
\<close>

definition bar_triples :: "(string \<times> rat) figure \<Rightarrow> (string \<times> string \<times> rat) list" where
  "bar_triples fig =
     concat (map (\<lambda>tr. map (\<lambda>(b, m). (b, trace_name tr, m)) (points tr)) (traces fig))"

text \<open>
  The points a scatterplot shows, each with the key of its colour: a point (x, y,
  tooltip) of the trace named b is (x, y, b, tooltip).
\<close>

definition scatter_points ::
    "(int \<times> rat \<times> string) figure \<Rightarrow> (int \<times> rat \<times> string \<times> string) list" where
  "scatter_points fig =
     concat (map (\<lambda>tr. map (\<lambda>(x, y, h). (x, y, trace_name tr, h)) (points tr)) (traces fig))"

text \<open>The rows and the column names a table result shows; none when there is no grid.\<close>

fun table_rows :: "component list \<Rightarrow> vehicle list" where
  "table_rows [] = []"
| "table_rows (DataTable t # cs) = dt_data t @ table_rows cs"
| "table_rows (H6 s st # cs) = table_rows cs"

text \<open>The colour a bar chart gives a transmission value, if it draws it.\<close>

definition transmission_color :: "(string \<times> rat) figure \<Rightarrow> string \<Rightarrow> string option" where
  "transmission_color fig t =
     map_of (map (\<lambda>tr. (trace_name tr, marker_color tr)) (traces fig)) t"

subsection \<open>Notions of the specification\<close>

text \<open>
  The binary64 number nearest to x, ties to even, stated without reference to the
  functions above: m is a multiple k of the unit in the last place of the binade of
  x, at most half a unit away from x, and k is even when m is exactly half a unit
  away.
\<close>

definition nearest_binary64 :: "rat \<Rightarrow> rat \<Rightarrow> bool" where
  "nearest_binary64 x m =
     (if x = 0 then m = 0
      else \<exists>k e. 2 powi e \<le> \<bar>x\<bar> \<and> \<bar>x\<bar> < 2 powi (e + 1) \<and>
             m = of_int k * 2 powi (e - 52) \<and>
             \<bar>m - x\<bar> \<le> 2 powi (e - 53) \<and>
             (\<bar>m - x\<bar> = 2 powi (e - 53) \<longrightarrow> even k))"



subsection \<open>Example tables\<close>

definition ford_2015 :: vehicle where
  "ford_2015 = \<lparr>brand = ''Ford'', model = ''F-150'', model_year = 2015, mileage = 50000,
                 price = 10000, transmission = ''automatic''\<rparr>"

definition ford_2018 :: vehicle where
  "ford_2018 = \<lparr>brand = ''Ford'', model = ''Focus'', model_year = 2018, mileage = 20000,
                 price = 18000, transmission = ''manual''\<rparr>"

definition audi_2016 :: vehicle where
  "audi_2016 = \<lparr>brand = ''Audi'', model = ''A4'', model_year = 2016, mileage = 30000,
                 price = 15000, transmission = ''manual''\<rparr>"

definition six_columns :: "string list" where
  "six_columns = [''brand'', ''model'', ''model_year'', ''mileage'', ''price'', ''transmission'']"

definition two_fords :: dataframe where
  "two_fords = \<lparr>columns = six_columns, rows = [ford_2015, ford_2018]\<rparr>"

definition three_cars :: dataframe where
  "three_cars = \<lparr>columns = six_columns, rows = [ford_2015, ford_2018, audi_2016]\<rparr>"

text \<open>Three manual Fords whose mean mileage, 40000 / 3, is no binary64 number.\<close>

definition ford_2019 :: vehicle where
  "ford_2019 = \<lparr>brand = ''Ford'', model = ''Fiesta'', model_year = 2019, mileage = 10000,
                 price = 12000, transmission = ''manual''\<rparr>"

definition ford_2020 :: vehicle where
  "ford_2020 = \<lparr>brand = ''Ford'', model = ''Fiesta'', model_year = 2020, mileage = 10000,
                 price = 14000, transmission = ''manual''\<rparr>"

definition manual_fords :: dataframe where
  "manual_fords = \<lparr>columns = six_columns, rows = [ford_2019, ford_2020, ford_2018]\<rparr>"

text \<open>
  Two brands that the order of the code points and the case-insensitive order
  arrange differently: \<open>BMW\<close> is before \<open>audi\<close> in the first, after it in the second.
\<close>

definition bmw_2017 :: vehicle where
  "bmw_2017 = \<lparr>brand = ''BMW'', model = ''X3'', model_year = 2017, mileage = 40000,
                price = 21000, transmission = ''automatic''\<rparr>"

definition audi_2014 :: vehicle where
  "audi_2014 = \<lparr>brand = ''audi'', model = ''A3'', model_year = 2014, mileage = 60000,
                 price = 9000, transmission = ''manual''\<rparr>"

definition mixed_case_cars :: dataframe where
  "mixed_case_cars = \<lparr>columns = six_columns, rows = [bmw_2017, audi_2014]\<rparr>"

section \<open>Auxiliary facts\<close>

subsection \<open>Binary64 rounding and the mean\<close>

















lemma binade_unique:
  assumes "(2::rat) powi e \<le> a" "a < 2 powi (e + 1)" "2 powi e' \<le> a" "a < 2 powi (e' + 1)"
  shows "e = e'"
proof -
  have le: "e \<le> e'" if "(2::rat) powi e \<le> a" "a < 2 powi (e' + 1)" for e e' :: int
  proof (rule ccontr)
    assume "\<not> e \<le> e'"
    then have "e' + 1 \<le> e" by simp
    then have "(2::rat) powi (e' + 1) \<le> 2 powi e"
      by (rule power_int_increasing) simp
    with that show False by simp
  qed
  from le [OF assms(1) assms(4)] le [OF assms(3) assms(2)] show ?thesis by simp
qed

text \<open>
  The nearest binary64 number is unique: the predicate determines the value it
  describes.
\<close>

lemma nearest_binary64_unique:
  assumes "nearest_binary64 x m" and "nearest_binary64 x m'"
  shows "m = m'"
proof (cases "x = 0")
  case True
  with assms show ?thesis by (simp add: nearest_binary64_def)
next
  case False
  from assms(1) False obtain k e where
    b: "2 powi e \<le> \<bar>x\<bar>" "\<bar>x\<bar> < 2 powi (e + 1)" and m: "m = of_int k * 2 powi (e - 52)"
    and d: "\<bar>m - x\<bar> \<le> 2 powi (e - 53)" and t: "\<bar>m - x\<bar> = 2 powi (e - 53) \<longrightarrow> even k"
    unfolding nearest_binary64_def by auto
  from assms(2) False obtain k' e' where
    b': "2 powi e' \<le> \<bar>x\<bar>" "\<bar>x\<bar> < 2 powi (e' + 1)" and m': "m' = of_int k' * 2 powi (e' - 52)"
    and d': "\<bar>m' - x\<bar> \<le> 2 powi (e' - 53)" and t': "\<bar>m' - x\<bar> = 2 powi (e' - 53) \<longrightarrow> even k'"
    unfolding nearest_binary64_def by auto
  have e: "e' = e" using binade_unique [OF b' b] .
  define u :: rat where "u = 2 powi (e - 52)"
  have u: "0 < u" by (simp add: u_def)
  have h: "2 powi (e - 53) = u / 2"
  proof -
    have "(2::rat) powi (e - 53) = 2 powi ((e - 52) - 1)" by simp
    also have "\<dots> = 2 powi (e - 52) / 2"
      by (subst power_int_diff) simp_all
    finally show ?thesis by (simp add: u_def)
  qed
  have mm: "m - m' = of_int (k - k') * u"
    by (simp add: m m' e u_def algebra_simps)
  show ?thesis
  proof (rule ccontr)
    assume ne: "m \<noteq> m'"
    then have kk: "k \<noteq> k'" using m m' e by auto
    then have "1 \<le> \<bar>k - k'\<bar>" by simp
    then have "(1::rat) \<le> \<bar>of_int (k - k')\<bar>"
      by (metis of_int_abs of_int_1_le_iff)
    then have "u \<le> \<bar>of_int (k - k')\<bar> * u"
      using u by simp
    also have "\<dots> = \<bar>m - m'\<bar>"
      using u by (simp add: mm abs_mult)
    also have "\<dots> \<le> \<bar>m - x\<bar> + \<bar>m' - x\<bar>" by simp
    finally have s: "u \<le> \<bar>m - x\<bar> + \<bar>m' - x\<bar>" .
    from d d' have dd: "\<bar>m - x\<bar> \<le> u / 2" "\<bar>m' - x\<bar> \<le> u / 2"
      by (simp_all add: e h)
    with s have "\<bar>m - x\<bar> = u / 2" "\<bar>m' - x\<bar> = u / 2" by linarith+
    with t t' have ev: "even k" "even k'" by (simp_all add: e h)
    from s dd have "\<bar>m - m'\<bar> \<le> u" by linarith
    then have "\<bar>of_int (k - k')\<bar> * u \<le> 1 * u"
      using u by (simp add: mm abs_mult)
    then have "\<bar>rat_of_int (k - k')\<bar> \<le> 1"
      using u by (simp only: mult_le_cancel_right_pos)
    then have "\<bar>k - k'\<bar> \<le> 1"
      by (metis of_int_abs of_int_le_1_iff)
    with kk ev show False by presburger
  qed
qed



subsection \<open>Frames, groups and traces\<close>

lemma set_unique_acc: "set (unique_acc seen xs) = set seen \<union> set xs"
  by (induction xs arbitrary: seen) auto

lemma distinct_unique_acc: "distinct seen \<Longrightarrow> distinct (unique_acc seen xs)"
  by (induction xs arbitrary: seen) auto

lemma set_unique: "set (unique xs) = set xs"
  by (simp add: unique_def set_unique_acc)

lemma distinct_unique: "distinct (unique xs)"
  by (simp add: unique_def distinct_unique_acc)

lemma unique_Nil_iff: "unique xs = [] \<longleftrightarrow> xs = []"
  using set_unique [of xs] by (metis set_empty)

lemma rows_df_where: "rows (df_where keep d) = filter keep (rows d)"
  by (simp add: df_where_def)

lemma columns_df_where: "columns (df_where keep d) = columns d"
  by (simp add: df_where_def)

lemma update_table_empty:
  "filter (\<lambda>r. brand r = b) (rows d) = [] \<Longrightarrow>
   update_table d b =
     [H6 (''No data available for '' @ b)
        [(''text-align'', ''center''), (''font-weight'', ''400''), (''font-size'', ''16px'')]]"
  by (simp add: update_table_def Let_def empty_df_def rows_df_where)

lemma update_table_grid:
  "filter (\<lambda>r. brand r = b) (rows d) \<noteq> [] \<Longrightarrow>
   update_table d b =
     [H6 (''Data Table for '' @ b @ '' vehicles'') [(''text-align'', ''center'')],
      DataTable \<lparr>dt_id = ''cars-table'',
                 dt_columns = map (\<lambda>i. (i, i)) (columns d),
                 dt_data = filter (\<lambda>r. brand r = b) (rows d),
                 dt_style_table = [(''height'', ''300px'')],
                 dt_style_cell = [(''textAlign'', ''left'')],
                 dt_page_size = 9\<rparr>]"
  by (simp add: update_table_def Let_def empty_df_def rows_df_where columns_df_where)

lemma map_enumerate_snd: "map (\<lambda>(i, c). g c) (enumerate n cs) = map g cs"
  by (induction cs arbitrary: n) auto

lemma mset_concat_groups:
  "distinct cs \<Longrightarrow>
   mset (concat (map (\<lambda>c. filter (\<lambda>r. k r = c) rs) cs)) = mset (filter (\<lambda>r. k r \<in> set cs) rs)"
proof (induction cs)
  case Nil
  then show ?case by simp
next
  case (Cons c cs)
  then have "c \<notin> set cs" by simp
  then have "mset (filter (\<lambda>r. k r = c) rs) + mset (filter (\<lambda>r. k r \<in> set cs) rs)
        = mset (filter (\<lambda>r. k r = c \<or> k r \<in> set cs) rs)"
    by (induction rs) auto
  with Cons show ?case by simp
qed

lemma mset_concat_unique_groups:
  "mset (concat (map (\<lambda>c. filter (\<lambda>r. k r = c) rs) (unique (map k rs)))) = mset rs"
  by (simp add: mset_concat_groups distinct_unique set_unique)

lemma concat_px_traces:
  "concat (map (\<lambda>tr. map (f (trace_name tr)) (points tr)) (px_traces pal fc k p rs)) =
   concat (map (\<lambda>c. map (f c \<circ> p) (filter (\<lambda>r. k r = c) rs)) (unique (map k rs)))"
proof -
  have "map (\<lambda>tr. map (f (trace_name tr)) (points tr)) (px_traces pal fc k p rs) =
        map (\<lambda>(i, c). map (f c \<circ> p) (filter (\<lambda>r. k r = c) rs)) (enumerate 0 (unique (map k rs)))"
    by (simp add: px_traces_def comp_def case_prod_unfold)
  also have "\<dots> = map (\<lambda>c. map (f c \<circ> p) (filter (\<lambda>r. k r = c) rs)) (unique (map k rs))"
    by (rule map_enumerate_snd)
  finally show ?thesis by simp
qed



lemma scatter_points_px:
  "mset (concat (map (\<lambda>tr. map (\<lambda>(x, y, h). (x, y, trace_name tr, h)) (points tr))
       (px_traces pal fc brand (\<lambda>r. (model_year r, price r, model r)) rs))) =
   mset (map (\<lambda>r. (model_year r, price r, brand r, model r)) rs)"
proof -
  have eq: "\<And>c. map ((\<lambda>c (x, y, h). (x, y, c, h)) c \<circ> (\<lambda>r. (model_year r, price r, model r)))
              (filter (\<lambda>r. brand r = c) rs) =
            map (\<lambda>r. (model_year r, price r, brand r, model r)) (filter (\<lambda>r. brand r = c) rs)"
    by (rule map_cong) auto
  have "concat (map (\<lambda>tr. map (\<lambda>(x, y, h). (x, y, trace_name tr, h)) (points tr))
       (px_traces pal fc brand (\<lambda>r. (model_year r, price r, model r)) rs)) =
     concat (map (\<lambda>c. map (\<lambda>r. (model_year r, price r, brand r, model r)) (filter (\<lambda>r. brand r = c) rs))
        (unique (map brand rs)))"
    using concat_px_traces [of "\<lambda>c (x, y, h). (x, y, c, h)" pal fc brand
        "\<lambda>r. (model_year r, price r, model r)" rs] eq
    by simp
  also have "\<dots> = map (\<lambda>r. (model_year r, price r, brand r, model r))
      (concat (map (\<lambda>c. filter (\<lambda>r. brand r = c) rs) (unique (map brand rs))))"
    by (simp add: map_concat comp_def)
  finally show ?thesis
    by (simp only: mset_map mset_concat_unique_groups)
qed




lemma traces_go_Figure: "traces go_Figure = []"
  by (simp add: go_Figure_def)

lemma update_mileage_chart_empty:
  "filter (\<lambda>r. brand r \<in> set sel) (rows d) = [] \<Longrightarrow>
   update_mileage_chart d sel =
     go_Figure\<lparr>title_text := Some ''No data available for selected brands''\<rparr>"
  by (simp add: update_mileage_chart_def Let_def empty_df_def rows_df_where isin_def)







lemmas ex_defs = two_fords_def three_cars_def six_columns_def ford_2015_def ford_2018_def
  audi_2016_def manual_fords_def ford_2019_def ford_2020_def mixed_case_cars_def bmw_2017_def
  audi_2014_def

lemmas run_defs = update_mileage_chart_def update_price_graph_def update_table_def df_where_def
  isin_def empty_df_def groupby_mean_def group_key_def unique_def px_traces_def go_Figure_def
  Let_def bar_triples_def scatter_points_def transmission_color_def colors_def

lemma update_price_graph_empty:
  "filter (\<lambda>r. brand r \<in> set sel \<and> lo \<le> model_year r \<and> model_year r \<le> hi) (rows d) = [] \<Longrightarrow>
   update_price_graph d sel [lo, hi] =
     Inr (go_Figure\<lparr>title_text := Some ''No data available for selected criteria''\<rparr>)"
  by (simp add: update_price_graph_def Let_def empty_df_def rows_df_where isin_def)

lemma update_price_graph_points:
  "filter (\<lambda>r. brand r \<in> set sel \<and> lo \<le> model_year r \<and> model_year r \<le> hi) (rows d) \<noteq> [] \<Longrightarrow>
   update_price_graph d sel [lo, hi] =
     Inr \<lparr>traces = px_traces colors False brand (\<lambda>r. (model_year r, price r, model r))
            (filter (\<lambda>r. brand r \<in> set sel \<and> lo \<le> model_year r \<and> model_year r \<le> hi) (rows d)),
          title_text = Some ''Price Trends Over Selected Years'',
          xaxis_title = Some ''Model Year'',
          yaxis_title = Some ''Price ($)'',
          showlegend = None,
          paper_bgcolor = Some ''lightgrey'',
          plot_bgcolor = Some ''lightgrey'',
          tickvals = Some [lo..hi],
          ticktext = Some (map str_int [lo..hi])\<rparr>"
  by (simp add: update_price_graph_def Let_def empty_df_def rows_df_where isin_def go_Figure_def)

lemma px_traces_eq_Nil_iff: "px_traces pal fc k p rs = [] \<longleftrightarrow> rs = []"
  by (simp add: px_traces_def enumerate_eq_zip unique_Nil_iff)















section \<open>The claims\<close>

subsection \<open>C1\<close>




subsection \<open>C2\<close>

text \<open>
  Claim C2. The rows the table callback shows are the rows of the table whose brand
  equals the selected string, in the table's order. When there is such a row, the
  result is a heading followed by one grid whose data are those rows, whose column
  names and ids are the table's columns in order, and whose page size is 9.
\<close>

theorem table_selector_rows_columns_page:
  "table_rows (update_table d b) = filter (\<lambda>r. brand r = b) (rows d) \<and>
   (filter (\<lambda>r. brand r = b) (rows d) \<noteq> [] \<longrightarrow>
      (\<exists>h t. update_table d b = [h, DataTable t] \<and>
         dt_data t = filter (\<lambda>r. brand r = b) (rows d) \<and>
         map fst (dt_columns t) = columns d \<and>
         map snd (dt_columns t) = columns d \<and>
         dt_page_size t = 9))"
proof (cases "filter (\<lambda>r. brand r = b) (rows d) = []")
  case True
  then show ?thesis by (simp add: update_table_empty)
next
  case False
  then show ?thesis by (simp add: update_table_grid comp_def)
qed

text \<open>Witness for C2: \<open>Audi\<close> selected in the table of three cars.\<close>

theorem table_selector_rows_columns_page_witness:
  "filter (\<lambda>r. brand r = ''Audi'') (rows three_cars) \<noteq> [] \<and>
   (\<exists>h t. update_table three_cars ''Audi'' = [h, DataTable t] \<and>
         dt_data t = [audi_2016] \<and>
         map fst (dt_columns t) = six_columns \<and>
         map snd (dt_columns t) = six_columns \<and>
         dt_page_size t = 9)"
  using table_selector_rows_columns_page [of three_cars "''Audi''"]
  by (simp add: three_cars_def ford_2015_def ford_2018_def audi_2016_def)

subsection \<open>C3\<close>

text \<open>
  Claim C3. For a year range given as a pair, the scatterplot callback returns a
  figure whose points, each read with the brand that keys its colour, are as a
  multiset the tuples (model year, price, brand, model) of the rows whose brand is
  selected and whose year lies in the range, both bounds included; in particular
  there are as many points as such rows.
\<close>

theorem price_one_point_per_matching_row:
  "\<exists>fig. update_price_graph d sel [lo, hi] = Inr fig \<and>
     mset (scatter_points fig) =
       mset (map (\<lambda>r. (model_year r, price r, brand r, model r))
          (filter (\<lambda>r. brand r \<in> set sel \<and> lo \<le> model_year r \<and> model_year r \<le> hi) (rows d))) \<and>
     length (scatter_points fig) =
       length (filter (\<lambda>r. brand r \<in> set sel \<and> lo \<le> model_year r \<and> model_year r \<le> hi) (rows d))"
proof -
  let ?rs = "filter (\<lambda>r. brand r \<in> set sel \<and> lo \<le> model_year r \<and> model_year r \<le> hi) (rows d)"
  have "\<exists>fig. update_price_graph d sel [lo, hi] = Inr fig \<and>
     mset (scatter_points fig) = mset (map (\<lambda>r. (model_year r, price r, brand r, model r)) ?rs)"
  proof (cases "?rs = []")
    case True
    then show ?thesis
      by (simp add: update_price_graph_empty scatter_points_def traces_go_Figure)
  next
    case False
    then show ?thesis
      by (simp only: update_price_graph_points scatter_points_def scatter_points_px
          sum.inject simp_thms figure.simps)
  qed
  then obtain fig where f: "update_price_graph d sel [lo, hi] = Inr fig"
    and m: "mset (scatter_points fig) = mset (map (\<lambda>r. (model_year r, price r, brand r, model r)) ?rs)"
    by blast
  from m have "length (scatter_points fig) = length (map (\<lambda>r. (model_year r, price r, brand r, model r)) ?rs)"
    by (rule mset_eq_length)
  then have "length (scatter_points fig) = length ?rs" by simp
  with f m show ?thesis by blast
qed

subsection \<open>C4\<close>

text \<open>
  Claim C4. When no selected brand occurs in the table, the bar chart callback
  returns the figure without traces titled "No data available for selected brands"
  and the scatterplot callback returns, without error, the figure without traces
  titled "No data available for selected criteria".
\<close>

theorem disjoint_brands_empty_result:
  assumes "set sel \<inter> set (map brand (rows d)) = {}"
  shows "update_mileage_chart d sel =
           go_Figure\<lparr>title_text := Some ''No data available for selected brands''\<rparr> \<and>
         update_price_graph d sel [lo, hi] =
           Inr (go_Figure\<lparr>title_text := Some ''No data available for selected criteria''\<rparr>)"
proof -
  from assms have n: "\<And>r. r \<in> set (rows d) \<Longrightarrow> brand r \<notin> set sel"
    by auto
  then have "filter (\<lambda>r. brand r \<in> set sel) (rows d) = []"
    by (simp add: filter_empty_conv)
  moreover from n have
    "filter (\<lambda>r. brand r \<in> set sel \<and> lo \<le> model_year r \<and> model_year r \<le> hi) (rows d) = []"
    by (simp add: filter_empty_conv)
  ultimately show ?thesis
    by (simp only: update_mileage_chart_empty update_price_graph_empty simp_thms)
qed

text \<open>Witness for C4: \<open>Toyota\<close> selected in the table of two Fords.\<close>

theorem disjoint_brands_empty_result_witness:
  "set [''Toyota''] \<inter> set (map brand (rows two_fords)) = {} \<and>
   traces (update_mileage_chart two_fords [''Toyota'']) = [] \<and>
   title_text (update_mileage_chart two_fords [''Toyota'']) =
     Some ''No data available for selected brands'' \<and>
   update_price_graph two_fords [''Toyota''] [2015, 2018] =
     Inr (go_Figure\<lparr>title_text := Some ''No data available for selected criteria''\<rparr>)"
  using disjoint_brands_empty_result [of "[''Toyota'']" two_fords 2015 2018]
  by (simp add: two_fords_def ford_2015_def ford_2018_def go_Figure_def)

subsection \<open>C5\<close>

text \<open>
  Claim C5. When some row has a selected brand and a year in the range, the
  scatterplot callback returns a figure with traces whose tick values are the list
  of the integers from the lower to the upper bound of the range, each once, and
  whose tick texts are their decimal strings: the ticks depend on the range only.
\<close>

theorem price_ticks_whole_years:
  assumes "\<exists>r \<in> set (rows d). brand r \<in> set sel \<and> lo \<le> model_year r \<and> model_year r \<le> hi"
  shows "\<exists>fig. update_price_graph d sel [lo, hi] = Inr fig \<and> traces fig \<noteq> [] \<and>
           tickvals fig = Some [lo..hi] \<and> distinct [lo..hi] \<and> set [lo..hi] = {lo..hi} \<and>
           ticktext fig = Some (map str_int [lo..hi])"
proof -
  from assms have
    "filter (\<lambda>r. brand r \<in> set sel \<and> lo \<le> model_year r \<and> model_year r \<le> hi) (rows d) \<noteq> []"
    unfolding filter_empty_conv by blast
  then show ?thesis
    by (simp add: update_price_graph_points px_traces_eq_Nil_iff)
qed

text \<open>
  Witness for C5: the range 2016 to 2020 over the two Fords yields one point, of
  2018, and five ticks.
\<close>

theorem price_ticks_whole_years_witness:
  "(\<exists>r \<in> set (rows two_fords). brand r \<in> set [''Ford''] \<and> 2016 \<le> model_year r \<and> model_year r \<le> 2020) \<and>
   (\<exists>fig. update_price_graph two_fords [''Ford''] [2016, 2020] = Inr fig \<and>
      scatter_points fig = [(2018, 18000, ''Ford'', ''Focus'')] \<and>
      tickvals fig = Some [2016, 2017, 2018, 2019, 2020])"
  using price_ticks_whole_years [of two_fords "[''Ford'']" 2016 2020]
  by (simp add: ex_defs run_defs upto.simps)

subsection \<open>C6\<close>

text \<open>
  Claim C6. When no row of the table has the selected brand, the table callback
  returns a single heading whose text is "No data available for " followed by the
  selected brand.
\<close>

theorem table_selector_empty_names_brand:
  assumes "\<forall>r \<in> set (rows d). brand r \<noteq> b"
  shows "\<exists>style. update_table d b = [H6 (''No data available for '' @ b) style]"
proof -
  from assms have "filter (\<lambda>r. brand r = b) (rows d) = []"
    by (simp add: filter_empty_conv)
  then show ?thesis by (simp add: update_table_empty)
qed

text \<open>Witness for C6: \<open>Toyota\<close> selected in the table of two Fords.\<close>

theorem table_selector_empty_names_brand_witness:
  "update_table two_fords ''Toyota'' =
     [H6 ''No data available for Toyota''
        [(''text-align'', ''center''), (''font-weight'', ''400''), (''font-size'', ''16px'')]]"
  using table_selector_empty_names_brand [of two_fords "''Toyota''"]
  by (simp add: ex_defs run_defs)

subsection \<open>C8\<close>



subsection \<open>C9\<close>



subsection \<open>C10\<close>

text \<open>
  Claim C10. With no brand selected, the bar chart callback returns its no-data
  figure, and the scatterplot callback, for a year range given as a pair, returns
  its no-data figure and no error.
\<close>

theorem empty_selection_empty_result:
  "update_mileage_chart d [] =
     go_Figure\<lparr>title_text := Some ''No data available for selected brands''\<rparr> \<and>
   update_price_graph d [] [lo, hi] =
     Inr (go_Figure\<lparr>title_text := Some ''No data available for selected criteria''\<rparr>)"
  by (simp add: update_mileage_chart_empty update_price_graph_empty)

end
